theory Spec2Isabelle
  imports Main "HOL-Library.Word"
begin

section \<open>The PowerDNS provider of dnscontrol: providers/powerdns/rest.go\<close>

text \<open>
  The file holds two Go sources of package \<open>powerdns\<close>: the REST client
  (\<open>PowerDnsApiClient\<close>) and the provider built on it (\<open>PowerDNSProvider\<close>).
  Both are embedded here function by function. What the Go code gets from other
  packages (net/url, path, net/http, encoding/json, and the packages \<open>models\<close>
  and \<open>diff\<close> of dnscontrol) is collected in the record \<open>externals\<close>
  and passed explicitly, so that every theorem holds for any behaviour of
  those collaborators.
\<close>

subsection \<open>Errors, panics and results\<close>

text \<open>
  A Go \<open>error\<close> value is either made in this package by \<open>fmt.Errorf\<close>
  (constructor \<open>Errorf\<close>, with its message), or it is the value a library call
  returned (constructor \<open>LibError\<close>, with the library's description). A
  function that returns \<open>(T, error)\<close> returns \<open>Ok v\<close> or \<open>Err e\<close>; a run-time
  panic is the third outcome.
\<close>

datatype go_error = Errorf string | LibError string

datatype panic = NilPointerDereference | NameOutsideZone

datatype 'a result = Ok 'a | Err go_error | Panic panic

subsection \<open>Constants\<close>

definition DefaultServerId :: string where
  "DefaultServerId = ''localhost''"

definition ChangeTypeReplace :: string where
  "ChangeTypeReplace = ''REPLACE''"

definition ChangeTypeDelete :: string where
  "ChangeTypeDelete = ''DELETE''"

definition StatusOK :: int where
  "StatusOK = 200"

definition StatusNoContent :: int where
  "StatusNoContent = 204"

definition StatusNotFound :: int where
  "StatusNotFound = 404"

subsection \<open>The wire structs\<close>

text \<open>
  Go's \<open>int\<close> is a signed 64-bit integer on the platforms dnscontrol is built
  for; a slice is a list (a nil slice and an empty one are both \<open>[]\<close>).
  Field names carry the struct's prefix where two structs share a name.
\<close>

record PdnsComments =
  cm_Content :: string
  cm_Account :: string
  cm_ModifiedAt :: "64 word"

record PdnsRecord =
  rec_Content :: string
  rec_Disabled :: bool
  rec_SetPr :: bool

record PdnsRRSet =
  rrset_Name :: string
  rrset_Type :: string
  rrset_TTL :: "64 word"
  rrset_ChangeType :: string
  rrset_Records :: "PdnsRecord list"
  rrset_Comments :: "PdnsComments list"

record PdnsZone =
  zone_Id :: string
  zone_Name :: string
  zone_Type :: string
  zone_Url :: string
  zone_Kind :: string
  zone_RRsets :: "PdnsRRSet list"
  zone_Serial :: "64 word"
  zone_NotifiedSerial :: "64 word"
  zone_EditedSerial :: "64 word"
  zone_Masters :: "string list"
  zone_DnsSec :: bool
  zone_Nsec3param :: string
  zone_Nsec3narrow :: bool
  zone_Presigned :: bool
  zone_SoaEdit :: string
  zone_SoaEditApi :: string
  zone_ApiRectify :: bool
  zone_Zone :: string
  zone_Account :: string
  zone_Nameservers :: "string list"
  zone_MasterTsigKeyIds :: "string list"
  zone_SlaveTsigKeyIds :: "string list"

record RRSetsUpdate =
  upd_RRSets :: "PdnsRRSet list"

text \<open>The zero values \<open>PdnsRecord{}\<close> and \<open>PdnsRRSet{}\<close>.\<close>

definition zeroPdnsRecord :: PdnsRecord where
  "zeroPdnsRecord = \<lparr>rec_Content = [], rec_Disabled = False, rec_SetPr = False\<rparr>"

definition zeroPdnsRRSet :: PdnsRRSet where
  "zeroPdnsRRSet = \<lparr>rrset_Name = [], rrset_Type = [], rrset_TTL = 0,
     rrset_ChangeType = [], rrset_Records = [], rrset_Comments = []\<rparr>"

subsection \<open>JSON encoding, as the struct tags direct it\<close>

datatype json =
  JNull
| JBool bool
| JNumber int
| JString string
| JArray "json list"
| JObject "(string \<times> json) list"

text \<open>
  A field tagged \<open>omitempty\<close> is left out when it holds its zero value: the
  empty string, 0, or a slice of length 0. \<open>disabled\<close>, \<open>set-ptr\<close> and
  \<open>rrsets\<close> have no such tag and are always written. Go writes a nil
  \<open>rrsets\<close> slice as \<open>null\<close>; lists do not tell nil from empty, and
  \<open>buildCorrection\<close>, the only caller, passes one element.
\<close>

definition omitemptyString :: "string \<Rightarrow> string \<Rightarrow> (string \<times> json) list" where
  "omitemptyString key v = (if v = [] then [] else [(key, JString v)])"

definition omitemptyInt :: "string \<Rightarrow> 64 word \<Rightarrow> (string \<times> json) list" where
  "omitemptyInt key v = (if v = 0 then [] else [(key, JNumber (sint v))])"

definition omitemptySlice :: "string \<Rightarrow> json list \<Rightarrow> (string \<times> json) list" where
  "omitemptySlice key vs = (if vs = [] then [] else [(key, JArray vs)])"

definition PdnsComments_json :: "PdnsComments \<Rightarrow> json" where
  "PdnsComments_json c = JObject
     (omitemptyString ''content'' (cm_Content c) @
      omitemptyString ''account'' (cm_Account c) @
      omitemptyInt ''modified_at'' (cm_ModifiedAt c))"

definition PdnsRecord_json :: "PdnsRecord \<Rightarrow> json" where
  "PdnsRecord_json r = JObject
     (omitemptyString ''content'' (rec_Content r) @
      [(''disabled'', JBool (rec_Disabled r)),
       (''set-ptr'', JBool (rec_SetPr r))])"

definition PdnsRRSet_json :: "PdnsRRSet \<Rightarrow> json" where
  "PdnsRRSet_json s = JObject
     (omitemptyString ''name'' (rrset_Name s) @
      omitemptyString ''type'' (rrset_Type s) @
      omitemptyInt ''ttl'' (rrset_TTL s) @
      omitemptyString ''changetype'' (rrset_ChangeType s) @
      omitemptySlice ''records'' (map PdnsRecord_json (rrset_Records s)) @
      omitemptySlice ''comments'' (map PdnsComments_json (rrset_Comments s)))"

definition RRSetsUpdate_json :: "RRSetsUpdate \<Rightarrow> json" where
  "RRSetsUpdate_json u = JObject [(''rrsets'', JArray (map PdnsRRSet_json (upd_RRSets u)))]"

text \<open>The keys of a JSON object, in the order they are written.\<close>

fun json_keys :: "json \<Rightarrow> string list" where
  "json_keys (JObject kvs) = map fst kvs"
| "json_keys _ = []"

subsection \<open>The canonical record model (package models) and the differ (package diff)\<close>

text \<open>
  \<open>RecordConfig.TTL\<close> is a \<open>uint32\<close>. The fields \<open>Type\<close>, \<open>Target\<close> and
  \<open>TTL\<close> are the ones rest.go writes; the two name fields are the ones
  \<open>SetLabelFromFQDN\<close> sets and \<open>GetLabelFQDN\<close> reads.
\<close>

record RecordConfig =
  rc_Type :: string
  rc_Name :: string
  rc_NameFQDN :: string
  rc_Target :: string
  rc_TTL :: "32 word"

record DomainConfig =
  dc_Name :: string
  dc_Records :: "RecordConfig list"

text \<open>
  A correlation holds two pointers; the differ leaves \<open>Existing\<close> nil in a
  creation and \<open>Desired\<close> nil in a deletion.
\<close>

record Correlation =
  Existing :: "RecordConfig option"
  Desired :: "RecordConfig option"

subsection \<open>HTTP, and what the collaborators do\<close>

record url =
  url_Scheme :: string
  url_Host :: string
  url_Path :: string

record http_request =
  req_Method :: string
  req_Url :: string
  req_Header :: "(string \<times> string) list"
  req_Body :: "string option"

text \<open>
  A response carries the numeric status, the status text (\<open>response.Status\<close>)
  and what \<open>ioutil.ReadAll(response.Body)\<close> yields: the bytes, and the read
  error if there is one.
\<close>

record http_response =
  StatusCode :: int
  Status :: string
  Body :: string
  BodyErr :: "string option"

text \<open>
  The observable effects: the requests handed to \<open>client.Do\<close>, in order, and
  the lines printed by \<open>fmt.Println\<close>.
\<close>

record world =
  sent :: "http_request list"
  stdout :: "string list"

text \<open>
  The collaborators. A library call that returns an error returns it as
  \<open>Inl\<close> of its description. The backend's answer to a request may depend on
  the requests sent before it. \<open>json_Unmarshal_zone\<close> decodes into a
  \<open>**PdnsZone\<close>: the JSON literal \<open>null\<close> leaves a nil pointer (\<open>None\<close>).
\<close>

record externals =
  url_Parse :: "string \<Rightarrow> string + url"
  path_Join :: "string list \<Rightarrow> string"
  url_String :: "url \<Rightarrow> string"
  http_NewRequest :: "string \<Rightarrow> string \<Rightarrow> string option \<Rightarrow> string + http_request"
  client_Do :: "http_request list \<Rightarrow> http_request \<Rightarrow> string + http_response"
  json_encode :: "json \<Rightarrow> string + string"
  json_Unmarshal_zone :: "string \<Rightarrow> string + PdnsZone option"
  Punycode :: "DomainConfig \<Rightarrow> DomainConfig"
  PostProcessRecords :: "RecordConfig list \<Rightarrow> RecordConfig list"
  IncrementalDiff :: "DomainConfig \<Rightarrow> RecordConfig list \<Rightarrow>
     Correlation list \<times> Correlation list \<times> Correlation list \<times> Correlation list"
  Correlation_String :: "Correlation \<Rightarrow> string"

subsection \<open>The REST client\<close>

text \<open>The \<open>*http.Client\<close> of the struct only fixes a 20 second timeout.\<close>

record PowerDnsApiClient =
  apiKey :: string
  baseUrl :: string

definition getApiUrl :: "externals \<Rightarrow> PowerDnsApiClient \<Rightarrow> url result" where
  "getApiUrl ext c =
     (case url_Parse ext (baseUrl c) of
        Inl err \<Rightarrow> Err (LibError err)
      | Inr u \<Rightarrow> Ok (u\<lparr>url_Path := path_Join ext [url_Path u, ''api/v1'']\<rparr>))"

text \<open>
  \<open>createRequest\<close> adds the two headers before it looks at \<open>err\<close>
  (\<open>Header.Add\<close> stores the key \<open>X-API-Key\<close> in its canonical form). When
  \<open>http.NewRequest\<close> fails, \<open>req\<close> is nil and \<open>req.Header\<close> panics, so the
  error return below it is never reached.
\<close>

definition createRequest ::
  "externals \<Rightarrow> PowerDnsApiClient \<Rightarrow> string \<Rightarrow> string \<Rightarrow> string option \<Rightarrow> http_request result" where
  "createRequest ext c method u body =
     (case http_NewRequest ext method u body of
        Inl err \<Rightarrow> Panic NilPointerDereference
      | Inr req \<Rightarrow>
          Ok (req\<lparr>req_Header := req_Header req @
                 [(''X-Api-Key'', apiKey c), (''Accept'', ''application/json'')]\<rparr>))"

definition Do :: "externals \<Rightarrow> http_request \<Rightarrow> world \<Rightarrow> (string + http_response) \<times> world" where
  "Do ext req w = (client_Do ext (sent w) req, w\<lparr>sent := sent w @ [req]\<rparr>)"

definition Println :: "string \<Rightarrow> world \<Rightarrow> world" where
  "Println s w = w\<lparr>stdout := stdout w @ [s]\<rparr>"

text \<open>
  The statement \<open>reqUrl.Path = path.Join(reqUrl.Path, "/servers", "/",
  DefaultServerId, "/zones", "/", zoneId)\<close>, which \<open>GetZone\<close> and
  \<open>UpdateZoneRRSets\<close> both start with.
\<close>

definition zonePath :: "externals \<Rightarrow> url \<Rightarrow> string \<Rightarrow> url" where
  "zonePath ext reqUrl zoneId =
     reqUrl\<lparr>url_Path := path_Join ext
       [url_Path reqUrl, ''/servers'', ''/'', DefaultServerId, ''/zones'', ''/'', zoneId]\<rparr>"

definition GetZone ::
  "externals \<Rightarrow> PowerDnsApiClient \<Rightarrow> string \<Rightarrow> world \<Rightarrow> PdnsZone option result \<times> world" where
  "GetZone ext c zoneId w =
     (case getApiUrl ext c of
        Err err \<Rightarrow> (Err err, w)
      | Panic p \<Rightarrow> (Panic p, w)
      | Ok reqUrl0 \<Rightarrow>
          (let reqUrl = zonePath ext reqUrl0 zoneId in
           case createRequest ext c ''GET'' (url_String ext reqUrl) None of
             Err err \<Rightarrow> (Err err, w)
           | Panic p \<Rightarrow> (Panic p, w)
           | Ok req \<Rightarrow>
               (case Do ext req w of
                  (Inl err, w') \<Rightarrow> (Err (LibError err), w')
                | (Inr response, w') \<Rightarrow>
                    if StatusCode response \<noteq> StatusOK \<and> StatusCode response \<noteq> StatusNotFound
                    then (Err (Errorf (''failed to get DNS zone: '' @ Status response)), w')
                    else if StatusCode response = StatusNotFound
                    then (Err (Errorf (''domain '' @ zoneId @ '' does not exists in DNS zone'')), w')
                    else
                      (case BodyErr response of
                         Some err \<Rightarrow> (Err (LibError err), w')
                       | None \<Rightarrow>
                           (case json_Unmarshal_zone ext (Body response) of
                              Inl err \<Rightarrow> (Err (LibError err), w')
                            | Inr zones \<Rightarrow> (Ok zones, w'))))))"

definition UpdateZoneRRSets ::
  "externals \<Rightarrow> PowerDnsApiClient \<Rightarrow> string \<Rightarrow> PdnsRRSet list \<Rightarrow> world \<Rightarrow> unit result \<times> world" where
  "UpdateZoneRRSets ext c zoneId rrSets w =
     (case getApiUrl ext c of
        Err err \<Rightarrow> (Err err, w)
      | Panic p \<Rightarrow> (Panic p, w)
      | Ok reqUrl0 \<Rightarrow>
          (let reqUrl = zonePath ext reqUrl0 zoneId;
               updateRequest = \<lparr>upd_RRSets = rrSets\<rparr>
           in
           case json_encode ext (RRSetsUpdate_json updateRequest) of
             Inl err \<Rightarrow> (Err (LibError err), w)
           | Inr jsonBytes \<Rightarrow>
               (let w1 = Println jsonBytes w in
                case createRequest ext c ''PATCH'' (url_String ext reqUrl) (Some jsonBytes) of
                  Err err \<Rightarrow> (Err err, w1)
                | Panic p \<Rightarrow> (Panic p, w1)
                | Ok req \<Rightarrow>
                    (case Do ext req w1 of
                       (Inl err, w2) \<Rightarrow> (Err (LibError err), w2)
                     | (Inr response, w2) \<Rightarrow>
                         (let w3 = Println (Body response) w2 in
                          if StatusCode response \<noteq> StatusNoContent
                          then (Err (Errorf (''failed to update DNS records '' @ Status response)), w3)
                          else (Ok (), w3))))))"

subsection \<open>Names of records\<close>

text \<open>
  Modelled from the spec: \<open>RecordConfig.SetLabelFromFQDN\<close>,
  \<open>RecordConfig.GetLabelFQDN\<close> and \<open>RecordConfig.GetTargetField\<close> belong to
  package \<open>models\<close>, which is not among the sources. The spec (4.1) has the
  name of a record converted from the absolute wire form, with its trailing
  dot, to the label relative to the zone's base domain (\<open>relativize\<close>), and
  the relative label made absolute again against the zone, with the dot
  appended (\<open>absolutize\<close>); the conversion is to be exact for the zone and
  for every strict subdomain of it, and a name that does not lie within the
  zone is an error and not a silent drop. So the label of the zone itself is
  the empty label, which no strict subdomain has. A record keeps its name
  in the non-absolute form as well (3), to which the wire boundary appends
  the dot. \<open>SetLabelFromFQDN\<close> returns nothing, so its error can only be a
  panic.
\<close>

definition trimTrailingDot :: "string \<Rightarrow> string" where
  "trimTrailingDot s = (if s \<noteq> [] \<and> last s = CHR ''.'' then butlast s else s)"

definition relativeLabel :: "string \<Rightarrow> string \<Rightarrow> string option" where
  "relativeLabel fqdn origin =
     (if fqdn = origin then Some []
      else if length origin + 1 < length fqdn \<and>
              drop (length fqdn - (length origin + 1)) fqdn = CHR ''.'' # origin
      then Some (take (length fqdn - (length origin + 1)) fqdn)
      else None)"

definition relativize :: "string \<Rightarrow> string \<Rightarrow> string option" where
  "relativize n origin = relativeLabel (trimTrailingDot n) origin"

definition absolutize :: "string \<Rightarrow> string \<Rightarrow> string" where
  "absolutize label origin =
     (if label = [] then origin else label @ ''.'' @ origin) @ ''.''"

definition SetLabelFromFQDN :: "RecordConfig \<Rightarrow> string \<Rightarrow> string \<Rightarrow> RecordConfig result" where
  "SetLabelFromFQDN rc fqdn origin =
     (let fqdn' = trimTrailingDot fqdn in
      case relativize fqdn origin of
        None \<Rightarrow> Panic NameOutsideZone
      | Some label \<Rightarrow> Ok (rc\<lparr>rc_Name := label, rc_NameFQDN := fqdn'\<rparr>))"

definition GetLabelFQDN :: "RecordConfig \<Rightarrow> string" where
  "GetLabelFQDN rc = rc_NameFQDN rc"

definition GetTargetField :: "RecordConfig \<Rightarrow> string" where
  "GetTargetField rc = rc_Target rc"

subsection \<open>The provider\<close>

record PowerDNSProvider =
  apiClient :: PowerDnsApiClient

text \<open>
  A correction is a message and a closure; running the closure acts on the
  world and returns the error (\<open>Ok ()\<close> is nil).
\<close>

record Correction =
  Msg :: string
  F :: "world \<Rightarrow> unit result \<times> world"

text \<open>
  Both closures read a field of \<open>c.Desired\<close> (or \<open>c.Existing\<close>), which
  panics when the pointer is nil. \<open>int(c.Desired.TTL)\<close> widens the unsigned
  32 bits to 64. The deletion never assigns \<open>set.TTL\<close> nor \<open>Disabled\<close>.
\<close>

definition buildCorrection ::
  "externals \<Rightarrow> PowerDNSProvider \<Rightarrow> Correlation \<Rightarrow> DomainConfig \<Rightarrow> string \<Rightarrow> Correction" where
  "buildCorrection ext p c dc action =
     (if action = ''create'' \<or> action = ''modify'' then
        \<lparr>Msg = Correlation_String ext c,
         F = (\<lambda>w.
           case Desired c of
             None \<Rightarrow> (Panic NilPointerDereference, w)
           | Some desired \<Rightarrow>
               (let st = zeroPdnsRRSet;
                    st = st\<lparr>rrset_ChangeType := ChangeTypeReplace\<rparr>;
                    st = st\<lparr>rrset_Name := GetLabelFQDN desired @ ''.''\<rparr>;
                    st = st\<lparr>rrset_Type := rc_Type desired\<rparr>;
                    st = st\<lparr>rrset_Records :=
                           [zeroPdnsRecord\<lparr>rec_Content := GetTargetField desired,
                                            rec_Disabled := False\<rparr>]\<rparr>;
                    st = st\<lparr>rrset_TTL := ucast (rc_TTL desired)\<rparr>
                in UpdateZoneRRSets ext (apiClient p) (dc_Name dc) [st] w))\<rparr>
      else
        \<lparr>Msg = Correlation_String ext c,
         F = (\<lambda>w.
           case Existing c of
             None \<Rightarrow> (Panic NilPointerDereference, w)
           | Some existing \<Rightarrow>
               (let st = zeroPdnsRRSet;
                    st = st\<lparr>rrset_ChangeType := ChangeTypeDelete\<rparr>;
                    st = st\<lparr>rrset_Name := GetLabelFQDN existing @ ''.''\<rparr>;
                    st = st\<lparr>rrset_Type := rc_Type existing\<rparr>;
                    st = st\<lparr>rrset_Records :=
                           [zeroPdnsRecord\<lparr>rec_Content := GetTargetField existing\<rparr>]\<rparr>
                in UpdateZoneRRSets ext (apiClient p) (dc_Name dc) [st] w))\<rparr>)"

text \<open>
  The two nested loops of \<open>nativeToDomainConfig\<close>, each appending to
  \<open>config\<close>. \<open>uint32(r.TTL)\<close> keeps the low 32 bits of the 64.
\<close>

fun nativeRecords ::
  "PdnsRRSet \<Rightarrow> string \<Rightarrow> PdnsRecord list \<Rightarrow> RecordConfig list \<Rightarrow> RecordConfig list result" where
  "nativeRecords r origin [] config = Ok config"
| "nativeRecords r origin (rr # rrs) config =
     (let rcc = \<lparr>rc_Type = rrset_Type r, rc_Name = [], rc_NameFQDN = [],
                 rc_Target = rec_Content rr, rc_TTL = ucast (rrset_TTL r)\<rparr>
      in case SetLabelFromFQDN rcc (rrset_Name r) origin of
           Ok rcc' \<Rightarrow> nativeRecords r origin rrs (config @ [rcc'])
         | Err err \<Rightarrow> Err err
         | Panic q \<Rightarrow> Panic q)"

fun nativeSets :: "string \<Rightarrow> PdnsRRSet list \<Rightarrow> RecordConfig list \<Rightarrow> RecordConfig list result" where
  "nativeSets origin [] config = Ok config"
| "nativeSets origin (r # rs) config =
     (case nativeRecords r origin (rrset_Records r) config of
        Ok config' \<Rightarrow> nativeSets origin rs config'
      | Err err \<Rightarrow> Err err
      | Panic q \<Rightarrow> Panic q)"

definition nativeToDomainConfig :: "PdnsRRSet list \<Rightarrow> DomainConfig \<Rightarrow> RecordConfig list result" where
  "nativeToDomainConfig native dc = nativeSets (dc_Name dc) native []"

text \<open>
  One of the three loops of \<open>GetDomainCorrections\<close>: a correction for each
  correlation, appended in order.
\<close>

fun appendCorrections ::
  "externals \<Rightarrow> PowerDNSProvider \<Rightarrow> DomainConfig \<Rightarrow> string \<Rightarrow> Correlation list \<Rightarrow>
   Correction list \<Rightarrow> Correction list" where
  "appendCorrections ext p dc action [] corrections = corrections"
| "appendCorrections ext p dc action (c # cs) corrections =
     appendCorrections ext p dc action cs (corrections @ [buildCorrection ext p c dc action])"

text \<open>
  \<open>dc.Punycode()\<close> rewrites the domain in place, and the rest of the function
  works on the rewritten one. \<open>zone.RRsets\<close> panics on the nil zone.
\<close>

definition GetDomainCorrections ::
  "externals \<Rightarrow> PowerDNSProvider \<Rightarrow> DomainConfig \<Rightarrow> world \<Rightarrow> Correction list result \<times> world" where
  "GetDomainCorrections ext p dc0 w =
     (let dc = Punycode ext dc0 in
      case GetZone ext (apiClient p) (dc_Name dc) w of
        (Err err, w') \<Rightarrow> (Err err, w')
      | (Panic q, w') \<Rightarrow> (Panic q, w')
      | (Ok None, w') \<Rightarrow> (Panic NilPointerDereference, w')
      | (Ok (Some zone), w') \<Rightarrow>
          (case nativeToDomainConfig (zone_RRsets zone) dc of
             Err err \<Rightarrow> (Err err, w')
           | Panic q \<Rightarrow> (Panic q, w')
           | Ok currentRecords0 \<Rightarrow>
               (let currentRecords = PostProcessRecords ext currentRecords0 in
                case IncrementalDiff ext dc currentRecords of
                  (unchanged, create, del, modify) \<Rightarrow>
                    (let corrections = [];
                         corrections = appendCorrections ext p dc ''delete'' del corrections;
                         corrections = appendCorrections ext p dc ''modify'' modify corrections;
                         corrections = appendCorrections ext p dc ''create'' create corrections
                     in (Ok corrections, w')))))"

subsection \<open>What \<open>GetZone\<close> makes of a response\<close>


subsection \<open>The record of one entry\<close>

text \<open>
  The \<open>RecordConfig\<close> that the body of the inner loop of
  \<open>nativeToDomainConfig\<close> appends for the entry \<open>rr\<close> of the set \<open>r\<close>, once
  \<open>SetLabelFromFQDN\<close> has found the label.
\<close>

definition flatRecord :: "PdnsRRSet \<Rightarrow> string \<Rightarrow> PdnsRecord \<Rightarrow> RecordConfig" where
  "flatRecord r label rr =
     \<lparr>rc_Type = rrset_Type r, rc_Name = label, rc_NameFQDN = trimTrailingDot (rrset_Name r),
      rc_Target = rec_Content rr, rc_TTL = ucast (rrset_TTL r)\<rparr>"

subsection \<open>A sample backend\<close>

text \<open>
  Concrete collaborators, for running the functions on concrete inputs: a
  backend that answers 204 to every PATCH and 200 with one zone to every GET
  (the decoder knows that zone's body and the JSON literal \<open>null\<close>),
  and a differ that deletes every current record and creates every desired one.
\<close>

definition sampleZone :: PdnsZone where
  "sampleZone = \<lparr>zone_Id = ''example.com.'', zone_Name = ''example.com.'', zone_Type = ''Zone'',
     zone_Url = [], zone_Kind = ''Native'',
     zone_RRsets =
       [\<lparr>rrset_Name = ''old.example.com.'', rrset_Type = ''A'', rrset_TTL = 300,
         rrset_ChangeType = [],
         rrset_Records = [\<lparr>rec_Content = ''9.9.9.9'', rec_Disabled = False, rec_SetPr = False\<rparr>],
         rrset_Comments = []\<rparr>],
     zone_Serial = 1, zone_NotifiedSerial = 1, zone_EditedSerial = 1, zone_Masters = [],
     zone_DnsSec = False, zone_Nsec3param = [], zone_Nsec3narrow = False,
     zone_Presigned = False, zone_SoaEdit = [], zone_SoaEditApi = [], zone_ApiRectify = False,
     zone_Zone = [], zone_Account = [], zone_Nameservers = [], zone_MasterTsigKeyIds = [],
     zone_SlaveTsigKeyIds = []\<rparr>"

definition sampleResponse :: "int \<Rightarrow> string \<Rightarrow> string \<Rightarrow> http_response" where
  "sampleResponse code text body =
     \<lparr>StatusCode = code, Status = text, Body = body, BodyErr = None\<rparr>"

definition sampleExternals :: externals where
  "sampleExternals =
     \<lparr>url_Parse = (\<lambda>s. Inr \<lparr>url_Scheme = ''http'', url_Host = s, url_Path = []\<rparr>),
      path_Join = concat,
      url_String = (\<lambda>u. url_Scheme u @ ''://'' @ url_Host u @ ''/'' @ url_Path u),
      http_NewRequest = (\<lambda>m u b. Inr \<lparr>req_Method = m, req_Url = u, req_Header = [], req_Body = b\<rparr>),
      client_Do = (\<lambda>history req.
         if req_Method req = ''PATCH'' then Inr (sampleResponse 204 ''204 No Content'' [])
         else Inr (sampleResponse 200 ''200 OK'' ''zone'')),
      json_encode = (\<lambda>j. Inr ''json''),
      json_Unmarshal_zone = (\<lambda>s.
         if s = ''zone'' then Inr (Some sampleZone)
         else if s = ''null'' then Inr None
         else Inl ''unexpected end of JSON input''),
      Punycode = (\<lambda>dc. dc),
      PostProcessRecords = (\<lambda>rs. rs),
      IncrementalDiff = (\<lambda>dc current.
         ([], map (\<lambda>d. \<lparr>Existing = None, Desired = Some d\<rparr>) (dc_Records dc),
          map (\<lambda>e. \<lparr>Existing = Some e, Desired = None\<rparr>) current, [])),
      Correlation_String = (\<lambda>c. ''change'')\<rparr>"

definition sampleClient :: PowerDnsApiClient where
  "sampleClient = \<lparr>apiKey = ''secret'', baseUrl = ''localhost:8081''\<rparr>"

definition emptyWorld :: world where
  "emptyWorld = \<lparr>sent = [], stdout = []\<rparr>"

definition sampleProvider :: PowerDNSProvider where
  "sampleProvider = \<lparr>apiClient = sampleClient\<rparr>"

definition sampleDomain :: DomainConfig where
  "sampleDomain = \<lparr>dc_Name = ''example.com'', dc_Records =
     [\<lparr>rc_Type = ''A'', rc_Name = ''www'', rc_NameFQDN = ''www.example.com'',
        rc_Target = ''1.2.3.4'', rc_TTL = 300\<rparr>]\<rparr>"

definition wwwRecord :: "string \<Rightarrow> RecordConfig" where
  "wwwRecord target = \<lparr>rc_Type = ''A'', rc_Name = ''www'', rc_NameFQDN = ''www.example.com'',
        rc_Target = target, rc_TTL = 300\<rparr>"

definition twoTargets :: DomainConfig where
  "twoTargets = \<lparr>dc_Name = ''example.com'', dc_Records =
     [wwwRecord ''1.1.1.1'', wwwRecord ''2.2.2.2'']\<rparr>"

definition sampleSets :: "PdnsRRSet list" where
  "sampleSets =
     [\<lparr>rrset_Name = ''www.example.com.'', rrset_Type = ''A'', rrset_TTL = 300,
       rrset_ChangeType = [],
       rrset_Records = [\<lparr>rec_Content = ''1.1.1.1'', rec_Disabled = False, rec_SetPr = False\<rparr>,
                        \<lparr>rec_Content = ''2.2.2.2'', rec_Disabled = False, rec_SetPr = False\<rparr>],
       rrset_Comments = []\<rparr>,
      \<lparr>rrset_Name = ''example.com.'', rrset_Type = ''NS'', rrset_TTL = 3600,
       rrset_ChangeType = [],
       rrset_Records = [\<lparr>rec_Content = ''ns1.example.com.'', rec_Disabled = False, rec_SetPr = False\<rparr>],
       rrset_Comments = []\<rparr>]"

section \<open>Properties of the REST client\<close>

lemmas client_defs = getApiUrl_def createRequest_def Do_def Println_def zonePath_def
  DefaultServerId_def StatusOK_def StatusNoContent_def StatusNotFound_def

lemmas sample_defs = sampleExternals_def sampleClient_def emptyWorld_def sampleResponse_def

lemma UpdateZoneRRSets_cases:
  "(\<exists>e. UpdateZoneRRSets ext c zoneId rrSets w = (Err (LibError e), w)) \<or>
   (\<exists>w'. sent w' = sent w \<and>
      (UpdateZoneRRSets ext c zoneId rrSets w = (Panic NilPointerDereference, w'))) \<or>
   (\<exists>req e w'. client_Do ext (sent w) req = Inl e \<and> sent w' = sent w @ [req] \<and>
      UpdateZoneRRSets ext c zoneId rrSets w = (Err (LibError e), w')) \<or>
   (\<exists>req response w'. client_Do ext (sent w) req = Inr response \<and> sent w' = sent w @ [req] \<and>
      UpdateZoneRRSets ext c zoneId rrSets w =
        (if StatusCode response \<noteq> StatusNoContent
         then Err (Errorf (''failed to update DNS records '' @ Status response)) else Ok (), w'))"
  unfolding UpdateZoneRRSets_def getApiUrl_def createRequest_def Do_def Println_def
  by (auto split: sum.splits simp: Let_def)

text \<open>
  C3. \<open>UpdateZoneRRSets\<close> returns nil exactly when a request went out and the
  backend answered it with status 204 No Content; when the backend answers
  with any other status, the error returned is the one made from the
  response's status text.
\<close>

theorem UpdateZoneRRSets_nil_iff_no_content:
  "((fst (UpdateZoneRRSets ext c zoneId rrSets w) = Ok ()) =
      (\<exists>req response.
          sent (snd (UpdateZoneRRSets ext c zoneId rrSets w)) = sent w @ [req] \<and>
          client_Do ext (sent w) req = Inr response \<and>
          StatusCode response = StatusNoContent)) \<and>
   (\<forall>req response.
      sent (snd (UpdateZoneRRSets ext c zoneId rrSets w)) = sent w @ [req] \<and>
      client_Do ext (sent w) req = Inr response \<and>
      StatusCode response \<noteq> StatusNoContent \<longrightarrow>
      fst (UpdateZoneRRSets ext c zoneId rrSets w) =
        Err (Errorf (''failed to update DNS records '' @ Status response)))"
  using UpdateZoneRRSets_cases [of ext c zoneId rrSets w]
  by (elim disjE exE conjE) (auto split: if_splits)

theorem UpdateZoneRRSets_nil_iff_no_content_witness:
  "fst (UpdateZoneRRSets sampleExternals sampleClient ''example.com'' [] emptyWorld) = Ok () \<and>
   fst (UpdateZoneRRSets
          (sampleExternals\<lparr>client_Do :=
             \<lambda>history req. Inr (sampleResponse 500 ''500 Internal Server Error'' [])\<rparr>)
          sampleClient ''example.com'' [] emptyWorld) =
     Err (Errorf ''failed to update DNS records 500 Internal Server Error'')"
proof
  let ?R = "UpdateZoneRRSets sampleExternals sampleClient ''example.com'' [] emptyWorld"
  have "\<exists>req response. sent (snd ?R) = sent emptyWorld @ [req] \<and>
          client_Do sampleExternals (sent emptyWorld) req = Inr response \<and>
          StatusCode response = StatusNoContent"
    by (simp add: UpdateZoneRRSets_def client_defs sample_defs)
  with UpdateZoneRRSets_nil_iff_no_content
         [of sampleExternals sampleClient "''example.com''" "[]" emptyWorld]
  show "fst ?R = Ok ()" by blast
next
  let ?ext = "sampleExternals\<lparr>client_Do :=
             \<lambda>history req. Inr (sampleResponse 500 ''500 Internal Server Error'' [])\<rparr>"
  let ?R = "UpdateZoneRRSets ?ext sampleClient ''example.com'' [] emptyWorld"
  let ?resp = "sampleResponse 500 ''500 Internal Server Error'' []"
  have "\<exists>req. sent (snd ?R) = sent emptyWorld @ [req] \<and>
          client_Do ?ext (sent emptyWorld) req = Inr ?resp \<and>
          StatusCode ?resp \<noteq> StatusNoContent"
    by (simp add: UpdateZoneRRSets_def client_defs sample_defs)
  with UpdateZoneRRSets_nil_iff_no_content
         [of ?ext sampleClient "''example.com''" "[]" emptyWorld]
  have "fst ?R = Err (Errorf (''failed to update DNS records '' @ Status ?resp))" by blast
  then show "fst ?R = Err (Errorf ''failed to update DNS records 500 Internal Server Error'')"
    by (simp add: sampleResponse_def)
qed















section \<open>Properties of the provider\<close>

subsection \<open>The two TTL conversions\<close>

text \<open>
  \<open>int(c.Desired.TTL)\<close> keeps the number; \<open>uint32(r.TTL)\<close> keeps it modulo
  \<open>2^32\<close>.
\<close>

lemma sint_widen_TTL: "sint (ucast (t :: 32 word) :: 64 word) = uint t"
proof -
  have "uint t < 2 ^ 32" using uint_bounded [of t] by simp
  then have "uint t < 2 ^ 63" by simp
  moreover have "- (2 ^ 63) \<le> uint t"
  proof -
    have "(0::int) \<le> uint t" by (rule uint_nonnegative)
    moreover have "- (2 ^ 63) \<le> (0::int)" by simp
    ultimately show ?thesis by (rule order_trans [rotated])
  qed
  ultimately have "signed_take_bit 63 (uint t) = uint t"
    by (intro signed_take_bit_int_eq_self) simp_all
  then show ?thesis by (simp add: signed_ucast_eq)
qed

lemma uint_narrow_TTL: "uint (ucast (t :: 64 word) :: 32 word) = sint t mod 2 ^ 32"
proof -
  have "uint (ucast t :: 32 word) = take_bit 32 (uint t)"
    by (simp add: unsigned_ucast_eq)
  also have "\<dots> = take_bit 32 (signed_take_bit 63 (uint t))"
    by (simp add: take_bit_signed_take_bit)
  also have "\<dots> = take_bit 32 (sint t)"
    by (simp add: sint_uint)
  finally show ?thesis by (simp add: take_bit_eq_mod)
qed

subsection \<open>The corrections\<close>

text \<open>
  C1. For a correlation that has a desired record, the action of the
  correction built for "create" or "modify" hands the mutator one record set:
  changetype REPLACE, the name the desired record's FQDN followed by a dot,
  the desired record's type, its TTL (the same number), and one record with
  the desired target, not disabled. The corrections built for "create" and
  for "modify" are the same.
\<close>

theorem buildCorrection_create_modify_payload:
  assumes "action = ''create'' \<or> action = ''modify''" and "Desired c = Some desired"
  shows "F (buildCorrection ext p c dc action) w =
           UpdateZoneRRSets ext (apiClient p) (dc_Name dc)
             [\<lparr>rrset_Name = GetLabelFQDN desired @ ''.'', rrset_Type = rc_Type desired,
               rrset_TTL = ucast (rc_TTL desired), rrset_ChangeType = ChangeTypeReplace,
               rrset_Records = [\<lparr>rec_Content = GetTargetField desired,
                                  rec_Disabled = False, rec_SetPr = False\<rparr>],
               rrset_Comments = []\<rparr>] w \<and>
         sint (ucast (rc_TTL desired) :: 64 word) = uint (rc_TTL desired) \<and>
         buildCorrection ext p c dc ''create'' = buildCorrection ext p c dc ''modify''"
  using assms
  by (auto simp: buildCorrection_def zeroPdnsRRSet_def zeroPdnsRecord_def sint_widen_TTL)

theorem buildCorrection_create_modify_payload_witness:
  "F (buildCorrection sampleExternals sampleProvider
        \<lparr>Existing = None, Desired = Some (wwwRecord ''1.2.3.4'')\<rparr> sampleDomain ''create'') emptyWorld =
     UpdateZoneRRSets sampleExternals sampleClient ''example.com''
       [\<lparr>rrset_Name = ''www.example.com.'', rrset_Type = ''A'', rrset_TTL = 300,
         rrset_ChangeType = ''REPLACE'',
         rrset_Records = [\<lparr>rec_Content = ''1.2.3.4'', rec_Disabled = False, rec_SetPr = False\<rparr>],
         rrset_Comments = []\<rparr>] emptyWorld \<and>
   buildCorrection sampleExternals sampleProvider
        \<lparr>Existing = None, Desired = Some (wwwRecord ''1.2.3.4'')\<rparr> sampleDomain ''create'' =
   buildCorrection sampleExternals sampleProvider
        \<lparr>Existing = None, Desired = Some (wwwRecord ''1.2.3.4'')\<rparr> sampleDomain ''modify''"
proof -
  let ?c = "\<lparr>Existing = None, Desired = Some (wwwRecord ''1.2.3.4'')\<rparr>"
  have a: "''create'' = ''create'' \<or> ''create'' = ''modify''" by simp
  have d: "Desired ?c = Some (wwwRecord ''1.2.3.4'')" by simp
  note t = buildCorrection_create_modify_payload
             [OF a d, of sampleExternals sampleProvider sampleDomain emptyWorld]
  from t have "F (buildCorrection sampleExternals sampleProvider ?c sampleDomain ''create'') emptyWorld =
     UpdateZoneRRSets sampleExternals sampleClient ''example.com''
       [\<lparr>rrset_Name = ''www.example.com.'', rrset_Type = ''A'', rrset_TTL = 300,
         rrset_ChangeType = ''REPLACE'',
         rrset_Records = [\<lparr>rec_Content = ''1.2.3.4'', rec_Disabled = False, rec_SetPr = False\<rparr>],
         rrset_Comments = []\<rparr>] emptyWorld"
    by (simp only: conj_imp_eq_imp_imp) (simp add: wwwRecord_def GetLabelFQDN_def GetTargetField_def ChangeTypeReplace_def
        sampleProvider_def sampleDomain_def)
  moreover from t have "buildCorrection sampleExternals sampleProvider ?c sampleDomain ''create'' =
      buildCorrection sampleExternals sampleProvider ?c sampleDomain ''modify''"
    by (rule conjunct2 [THEN conjunct2])
  ultimately show ?thesis by (rule conjI)
qed

text \<open>
  C6. For a correlation that has an existing record, the action of the
  correction built for "delete" hands the mutator one record set with
  changetype DELETE, the existing record's FQDN followed by a dot, its type,
  and one record with the existing target. Its TTL is left at zero, so the
  encoded payload has no "ttl" key.
\<close>

theorem buildCorrection_delete_payload:
  assumes "Existing c = Some existing"
  shows "F (buildCorrection ext p c dc ''delete'') w =
           UpdateZoneRRSets ext (apiClient p) (dc_Name dc)
             [\<lparr>rrset_Name = GetLabelFQDN existing @ ''.'', rrset_Type = rc_Type existing,
               rrset_TTL = 0, rrset_ChangeType = ChangeTypeDelete,
               rrset_Records = [\<lparr>rec_Content = GetTargetField existing,
                                  rec_Disabled = False, rec_SetPr = False\<rparr>],
               rrset_Comments = []\<rparr>] w \<and>
         RRSetsUpdate_json \<lparr>upd_RRSets =
             [\<lparr>rrset_Name = GetLabelFQDN existing @ ''.'', rrset_Type = rc_Type existing,
               rrset_TTL = 0, rrset_ChangeType = ChangeTypeDelete,
               rrset_Records = [\<lparr>rec_Content = GetTargetField existing,
                                  rec_Disabled = False, rec_SetPr = False\<rparr>],
               rrset_Comments = []\<rparr>]\<rparr> =
           JObject [(''rrsets'', JArray [JObject
             ([(''name'', JString (GetLabelFQDN existing @ ''.''))] @
              omitemptyString ''type'' (rc_Type existing) @
              [(''changetype'', JString ''DELETE''),
               (''records'', JArray [JObject
                  (omitemptyString ''content'' (GetTargetField existing) @
                   [(''disabled'', JBool False), (''set-ptr'', JBool False)])])])])] \<and>
         ''ttl'' \<notin> set (json_keys (PdnsRRSet_json
             \<lparr>rrset_Name = GetLabelFQDN existing @ ''.'', rrset_Type = rc_Type existing,
               rrset_TTL = 0, rrset_ChangeType = ChangeTypeDelete,
               rrset_Records = [\<lparr>rec_Content = GetTargetField existing,
                                  rec_Disabled = False, rec_SetPr = False\<rparr>],
               rrset_Comments = []\<rparr>))"
  using assms
  by (simp add: buildCorrection_def zeroPdnsRRSet_def zeroPdnsRecord_def
        RRSetsUpdate_json_def PdnsRRSet_json_def PdnsRecord_json_def ChangeTypeDelete_def
        omitemptyString_def omitemptyInt_def omitemptySlice_def)


theorem buildCorrection_delete_payload_witness:
  "F (buildCorrection sampleExternals sampleProvider
        \<lparr>Existing = Some (wwwRecord ''9.9.9.9''), Desired = None\<rparr> sampleDomain ''delete'') emptyWorld =
     UpdateZoneRRSets sampleExternals sampleClient ''example.com''
       [\<lparr>rrset_Name = ''www.example.com.'', rrset_Type = ''A'', rrset_TTL = 0,
         rrset_ChangeType = ''DELETE'',
         rrset_Records = [\<lparr>rec_Content = ''9.9.9.9'', rec_Disabled = False, rec_SetPr = False\<rparr>],
         rrset_Comments = []\<rparr>] emptyWorld \<and>
   json_keys (PdnsRRSet_json
       \<lparr>rrset_Name = ''www.example.com.'', rrset_Type = ''A'', rrset_TTL = 0,
         rrset_ChangeType = ''DELETE'',
         rrset_Records = [\<lparr>rec_Content = ''9.9.9.9'', rec_Disabled = False, rec_SetPr = False\<rparr>],
         rrset_Comments = []\<rparr>) = [''name'', ''type'', ''changetype'', ''records'']"
proof -
  let ?c = "\<lparr>Existing = Some (wwwRecord ''9.9.9.9''), Desired = None\<rparr>"
  have e: "Existing ?c = Some (wwwRecord ''9.9.9.9'')" by simp
  note t = buildCorrection_delete_payload
             [OF e, of sampleExternals sampleProvider sampleDomain emptyWorld]
  from t [THEN conjunct1]
  have "F (buildCorrection sampleExternals sampleProvider ?c sampleDomain ''delete'') emptyWorld =
     UpdateZoneRRSets sampleExternals sampleClient ''example.com''
       [\<lparr>rrset_Name = ''www.example.com.'', rrset_Type = ''A'', rrset_TTL = 0,
         rrset_ChangeType = ''DELETE'',
         rrset_Records = [\<lparr>rec_Content = ''9.9.9.9'', rec_Disabled = False, rec_SetPr = False\<rparr>],
         rrset_Comments = []\<rparr>] emptyWorld"
    by (simp add: wwwRecord_def GetLabelFQDN_def GetTargetField_def ChangeTypeDelete_def
        sampleProvider_def sampleDomain_def)
  moreover have "json_keys (PdnsRRSet_json
       \<lparr>rrset_Name = ''www.example.com.'', rrset_Type = ''A'', rrset_TTL = 0,
         rrset_ChangeType = ''DELETE'',
         rrset_Records = [\<lparr>rec_Content = ''9.9.9.9'', rec_Disabled = False, rec_SetPr = False\<rparr>],
         rrset_Comments = []\<rparr>) = [''name'', ''type'', ''changetype'', ''records'']"
    by (simp add: PdnsRRSet_json_def omitemptyString_def omitemptyInt_def omitemptySlice_def)
  ultimately show ?thesis by (rule conjI)
qed

lemma UpdateZoneRRSets_sent:
  "sent (snd (UpdateZoneRRSets ext c zoneId rrSets w)) = sent w \<or>
   (\<exists>req. sent (snd (UpdateZoneRRSets ext c zoneId rrSets w)) = sent w @ [req])"
  using UpdateZoneRRSets_cases [of ext c zoneId rrSets w]
  by (elim disjE exE conjE) auto

text \<open>
  C9. Running the action of a built correction is one call of
  \<open>UpdateZoneRRSets\<close>: the action returns what that call returns and leaves
  the world as that call leaves it, so the error is neither dropped nor
  wrapped, and at most one request goes out, whatever the backend answers.
\<close>

theorem correction_runs_mutator_once:
  assumes "(if action = ''create'' \<or> action = ''modify'' then Desired c else Existing c) = Some r"
  shows "\<exists>rrset.
           F (buildCorrection ext p c dc action) w =
             UpdateZoneRRSets ext (apiClient p) (dc_Name dc) [rrset] w \<and>
           (sent (snd (F (buildCorrection ext p c dc action) w)) = sent w \<or>
            (\<exists>req. sent (snd (F (buildCorrection ext p c dc action) w)) = sent w @ [req]))"
proof -
  obtain rrset where
    run: "F (buildCorrection ext p c dc action) w =
            UpdateZoneRRSets ext (apiClient p) (dc_Name dc) [rrset] w"
    using assms by (cases "action = ''create'' \<or> action = ''modify''") (simp_all add: buildCorrection_def)
  show ?thesis
    using run UpdateZoneRRSets_sent [of ext "apiClient p" "dc_Name dc" "[rrset]" w]
    by (intro exI [of _ rrset]) simp
qed

theorem correction_runs_mutator_once_witness:
  "\<exists>rrset.
     F (buildCorrection
          (sampleExternals\<lparr>client_Do :=
             \<lambda>history req. Inr (sampleResponse 500 ''500 Internal Server Error'' [])\<rparr>)
          sampleProvider \<lparr>Existing = None, Desired = Some (wwwRecord ''1.2.3.4'')\<rparr>
          sampleDomain ''modify'') emptyWorld =
     UpdateZoneRRSets
          (sampleExternals\<lparr>client_Do :=
             \<lambda>history req. Inr (sampleResponse 500 ''500 Internal Server Error'' [])\<rparr>)
          sampleClient ''example.com'' [rrset] emptyWorld"
proof -
  let ?c = "\<lparr>Existing = None, Desired = Some (wwwRecord ''1.2.3.4'')\<rparr>"
  have h: "(if ''modify'' = ''create'' \<or> ''modify'' = ''modify'' then Desired ?c else Existing ?c) =
             Some (wwwRecord ''1.2.3.4'')"
    by simp
  from correction_runs_mutator_once [OF h, of
         "sampleExternals\<lparr>client_Do :=
             \<lambda>history req. Inr (sampleResponse 500 ''500 Internal Server Error'' [])\<rparr>"
         sampleProvider sampleDomain emptyWorld]
  show ?thesis
    by (auto simp: sampleProvider_def sampleDomain_def)
qed

text \<open>
  C10. Every action string other than "create" and "modify" builds the very
  correction that "delete" builds: a DELETE of the existing record. The string
  is not checked and no action string yields an error.
\<close>

theorem buildCorrection_unrecognized_action_deletes:
  assumes "action \<noteq> ''create''" and "action \<noteq> ''modify''" and "Existing c = Some existing"
  shows "buildCorrection ext p c dc action = buildCorrection ext p c dc ''delete'' \<and>
         F (buildCorrection ext p c dc action) w =
           UpdateZoneRRSets ext (apiClient p) (dc_Name dc)
             [\<lparr>rrset_Name = GetLabelFQDN existing @ ''.'', rrset_Type = rc_Type existing,
               rrset_TTL = 0, rrset_ChangeType = ChangeTypeDelete,
               rrset_Records = [\<lparr>rec_Content = GetTargetField existing,
                                  rec_Disabled = False, rec_SetPr = False\<rparr>],
               rrset_Comments = []\<rparr>] w"
  using assms
  by (simp add: buildCorrection_def zeroPdnsRRSet_def zeroPdnsRecord_def)

theorem buildCorrection_unrecognized_action_deletes_witness:
  "buildCorrection sampleExternals sampleProvider
     \<lparr>Existing = Some (wwwRecord ''9.9.9.9''), Desired = Some (wwwRecord ''1.2.3.4'')\<rparr>
     sampleDomain ''frobnicate'' =
   buildCorrection sampleExternals sampleProvider
     \<lparr>Existing = Some (wwwRecord ''9.9.9.9''), Desired = Some (wwwRecord ''1.2.3.4'')\<rparr>
     sampleDomain ''delete''"
proof -
  let ?c = "\<lparr>Existing = Some (wwwRecord ''9.9.9.9''), Desired = Some (wwwRecord ''1.2.3.4'')\<rparr>"
  have a: "''frobnicate'' \<noteq> ''create''" and b: "''frobnicate'' \<noteq> ''modify''" by simp_all
  have e: "Existing ?c = Some (wwwRecord ''9.9.9.9'')" by simp
  from buildCorrection_unrecognized_action_deletes
         [OF a b e, of sampleExternals sampleProvider sampleDomain emptyWorld]
  show ?thesis by (rule conjunct1)
qed

text \<open>
  C5. The builder does not group. Two creations for the same name and type
  (two A records of www.example.com) give two corrections, and each sends a
  REPLACE of the record set www.example.com. A that holds one record only.
\<close>

theorem same_name_type_creates_not_grouped:
  "map (\<lambda>k. F k w)
     (appendCorrections ext p dc ''create''
        [\<lparr>Existing = None, Desired = Some (wwwRecord ''1.1.1.1'')\<rparr>,
         \<lparr>Existing = None, Desired = Some (wwwRecord ''2.2.2.2'')\<rparr>] []) =
   [UpdateZoneRRSets ext (apiClient p) (dc_Name dc)
      [\<lparr>rrset_Name = ''www.example.com.'', rrset_Type = ''A'', rrset_TTL = 300,
        rrset_ChangeType = ''REPLACE'',
        rrset_Records = [\<lparr>rec_Content = ''1.1.1.1'', rec_Disabled = False, rec_SetPr = False\<rparr>],
        rrset_Comments = []\<rparr>] w,
    UpdateZoneRRSets ext (apiClient p) (dc_Name dc)
      [\<lparr>rrset_Name = ''www.example.com.'', rrset_Type = ''A'', rrset_TTL = 300,
        rrset_ChangeType = ''REPLACE'',
        rrset_Records = [\<lparr>rec_Content = ''2.2.2.2'', rec_Disabled = False, rec_SetPr = False\<rparr>],
        rrset_Comments = []\<rparr>] w]"
  by (simp add: buildCorrection_def wwwRecord_def zeroPdnsRRSet_def zeroPdnsRecord_def
        GetLabelFQDN_def GetTargetField_def ChangeTypeReplace_def)

subsection \<open>The list of corrections\<close>

lemma appendCorrections_map:
  "appendCorrections ext p dc action cs corrections =
     corrections @ map (\<lambda>c. buildCorrection ext p c dc action) cs"
  by (induction cs arbitrary: corrections) simp_all

lemma sample_GetZone:
  "fst (GetZone sampleExternals sampleClient ''example.com'' emptyWorld) = Ok (Some sampleZone)"
  by (simp add: GetZone_def client_defs sample_defs)

lemma sample_current:
  "nativeToDomainConfig (zone_RRsets sampleZone) twoTargets =
     Ok [\<lparr>rc_Type = ''A'', rc_Name = ''old'', rc_NameFQDN = ''old.example.com'',
          rc_Target = ''9.9.9.9'', rc_TTL = 300\<rparr>]"
  by (simp add: nativeToDomainConfig_def sampleZone_def twoTargets_def SetLabelFromFQDN_def relativize_def
        trimTrailingDot_def relativeLabel_def)

text \<open>
  C2. When the zone is fetched and flattened, \<open>GetDomainCorrections\<close> returns
  one correction for each correlation the differ put under delete, modify and
  create, and none for the unchanged ones: first those of the deletions, then
  those of the modifications, then those of the creations, each group in the
  differ's order.
\<close>

theorem GetDomainCorrections_order:
  assumes "GetZone ext (apiClient p) (dc_Name (Punycode ext dc)) w = (Ok (Some zone), w')"
      and "nativeToDomainConfig (zone_RRsets zone) (Punycode ext dc) = Ok current"
      and "IncrementalDiff ext (Punycode ext dc) (PostProcessRecords ext current) =
             (unchanged, create, del, modify)"
  shows "GetDomainCorrections ext p dc w =
           (Ok (map (\<lambda>c. buildCorrection ext p c (Punycode ext dc) ''delete'') del @
                map (\<lambda>c. buildCorrection ext p c (Punycode ext dc) ''modify'') modify @
                map (\<lambda>c. buildCorrection ext p c (Punycode ext dc) ''create'') create), w')"
  using assms by (simp add: GetDomainCorrections_def Let_def appendCorrections_map)

theorem GetDomainCorrections_order_witness:
  "fst (GetDomainCorrections sampleExternals sampleProvider twoTargets emptyWorld) =
     Ok [buildCorrection sampleExternals sampleProvider
           \<lparr>Existing = Some \<lparr>rc_Type = ''A'', rc_Name = ''old'', rc_NameFQDN = ''old.example.com'',
                              rc_Target = ''9.9.9.9'', rc_TTL = 300\<rparr>, Desired = None\<rparr>
           twoTargets ''delete'',
         buildCorrection sampleExternals sampleProvider
           \<lparr>Existing = None, Desired = Some (wwwRecord ''1.1.1.1'')\<rparr> twoTargets ''create'',
         buildCorrection sampleExternals sampleProvider
           \<lparr>Existing = None, Desired = Some (wwwRecord ''2.2.2.2'')\<rparr> twoTargets ''create'']"
proof -
  let ?old = "\<lparr>rc_Type = ''A'', rc_Name = ''old'', rc_NameFQDN = ''old.example.com'',
                rc_Target = ''9.9.9.9'', rc_TTL = 300\<rparr>"
  let ?w' = "snd (GetZone sampleExternals sampleClient ''example.com'' emptyWorld)"
  have z: "GetZone sampleExternals (apiClient sampleProvider)
             (dc_Name (Punycode sampleExternals twoTargets)) emptyWorld = (Ok (Some sampleZone), ?w')"
    using sample_GetZone
    by (simp add: sampleProvider_def sampleExternals_def twoTargets_def prod_eq_iff)
  have n: "nativeToDomainConfig (zone_RRsets sampleZone) (Punycode sampleExternals twoTargets) =
             Ok [?old]"
    using sample_current by (simp add: sampleExternals_def)
  have d: "IncrementalDiff sampleExternals (Punycode sampleExternals twoTargets)
             (PostProcessRecords sampleExternals [?old]) =
           ([], [\<lparr>Existing = None, Desired = Some (wwwRecord ''1.1.1.1'')\<rparr>,
                 \<lparr>Existing = None, Desired = Some (wwwRecord ''2.2.2.2'')\<rparr>],
            [\<lparr>Existing = Some ?old, Desired = None\<rparr>], [])"
    by (simp add: sampleExternals_def twoTargets_def)
  from GetDomainCorrections_order [OF z n d]
  show ?thesis by (simp add: sampleExternals_def)
qed

section \<open>Flattening the native zone\<close>

lemma nativeRecords_in_zone:
  assumes "relativeLabel (trimTrailingDot (rrset_Name r)) origin = Some label"
  shows "nativeRecords r origin rrs config = Ok (config @ map (flatRecord r label) rrs)"
  using assms
  by (induction rrs arbitrary: config) (simp_all add: SetLabelFromFQDN_def relativize_def flatRecord_def)

lemma nativeRecords_outside_zone:
  assumes "relativeLabel (trimTrailingDot (rrset_Name r)) origin = None" and "rrs \<noteq> []"
  shows "nativeRecords r origin rrs config = Panic NameOutsideZone"
  using assms by (cases rrs) (simp_all add: SetLabelFromFQDN_def relativize_def)

lemma nativeSets_in_zone:
  assumes "\<forall>r \<in> set rs. rrset_Records r \<noteq> [] \<longrightarrow>
             relativeLabel (trimTrailingDot (rrset_Name r)) origin = Some (label r)"
  shows "nativeSets origin rs config =
           Ok (config @ concat (map (\<lambda>r. map (flatRecord r (label r)) (rrset_Records r)) rs))"
  using assms
proof (induction rs arbitrary: config)
  case Nil
  then show ?case by simp
next
  case (Cons r rs)
  have step: "nativeRecords r origin (rrset_Records r) config =
                Ok (config @ map (flatRecord r (label r)) (rrset_Records r))"
  proof (cases "rrset_Records r = []")
    case True
    then show ?thesis by simp
  next
    case False
    with Cons.prems have "relativeLabel (trimTrailingDot (rrset_Name r)) origin = Some (label r)"
      by simp
    then show ?thesis by (rule nativeRecords_in_zone)
  qed
  from Cons.prems have "\<forall>r \<in> set rs. rrset_Records r \<noteq> [] \<longrightarrow>
             relativeLabel (trimTrailingDot (rrset_Name r)) origin = Some (label r)"
    by simp
  from Cons.IH [OF this] step show ?case by simp
qed

text \<open>
  C7, as the code has it. When the name of every record set that holds
  records lies within the zone, \<open>nativeToDomainConfig\<close> returns one record
  for each entry of each set, the sets in their order and the entries of a
  set in theirs; each record carries the set's type, the set's name (without
  the trailing dot, and as a label relative to the zone) and the entry's
  content, and its TTL is the set's TTL converted to \<open>uint32\<close>, that is,
  taken modulo \<open>2^32\<close>.
\<close>

theorem nativeToDomainConfig_flattens:
  assumes "\<forall>r \<in> set native. rrset_Records r \<noteq> [] \<longrightarrow>
             relativeLabel (trimTrailingDot (rrset_Name r)) (dc_Name dc) = Some (label r)"
  shows "nativeToDomainConfig native dc =
           Ok (concat (map (\<lambda>r. map (\<lambda>rr.
                 \<lparr>rc_Type = rrset_Type r, rc_Name = label r,
                  rc_NameFQDN = trimTrailingDot (rrset_Name r),
                  rc_Target = rec_Content rr, rc_TTL = ucast (rrset_TTL r)\<rparr>)
               (rrset_Records r)) native)) \<and>
         (\<forall>r. uint (ucast (rrset_TTL r) :: 32 word) = sint (rrset_TTL r) mod 2 ^ 32)"
proof
  have "nativeToDomainConfig native dc =
          Ok ([] @ concat (map (\<lambda>r. map (flatRecord r (label r)) (rrset_Records r)) native))"
    unfolding nativeToDomainConfig_def using assms by (rule nativeSets_in_zone)
  then show "nativeToDomainConfig native dc =
           Ok (concat (map (\<lambda>r. map (\<lambda>rr.
                 \<lparr>rc_Type = rrset_Type r, rc_Name = label r,
                  rc_NameFQDN = trimTrailingDot (rrset_Name r),
                  rc_Target = rec_Content rr, rc_TTL = ucast (rrset_TTL r)\<rparr>)
               (rrset_Records r)) native))"
    by (simp add: flatRecord_def [abs_def])
next
  show "\<forall>r. uint (ucast (rrset_TTL r) :: 32 word) = sint (rrset_TTL r) mod 2 ^ 32"
    by (simp add: uint_narrow_TTL)
qed

theorem nativeToDomainConfig_flattens_witness:
  "nativeToDomainConfig sampleSets sampleDomain =
     Ok [\<lparr>rc_Type = ''A'', rc_Name = ''www'', rc_NameFQDN = ''www.example.com'',
          rc_Target = ''1.1.1.1'', rc_TTL = 300\<rparr>,
         \<lparr>rc_Type = ''A'', rc_Name = ''www'', rc_NameFQDN = ''www.example.com'',
          rc_Target = ''2.2.2.2'', rc_TTL = 300\<rparr>,
         \<lparr>rc_Type = ''NS'', rc_Name = [], rc_NameFQDN = ''example.com'',
          rc_Target = ''ns1.example.com.'', rc_TTL = 3600\<rparr>]"
proof -
  let ?label = "\<lambda>r. if rrset_Type r = ''A'' then ''www'' else []"
  have h: "\<forall>r \<in> set sampleSets. rrset_Records r \<noteq> [] \<longrightarrow>
             relativeLabel (trimTrailingDot (rrset_Name r)) (dc_Name sampleDomain) = Some (?label r)"
    by (simp add: sampleSets_def sampleDomain_def trimTrailingDot_def relativeLabel_def)
  from nativeToDomainConfig_flattens [OF h, THEN conjunct1]
  show ?thesis
    by (simp add: sampleSets_def trimTrailingDot_def)
qed

text \<open>
  The TTL is not always the set's: a set whose TTL is \<open>2^32\<close> gives a record
  whose TTL is 0.
\<close>

theorem nativeToDomainConfig_TTL_truncated:
  "nativeToDomainConfig
     [\<lparr>rrset_Name = ''www.example.com.'', rrset_Type = ''A'', rrset_TTL = 4294967296,
       rrset_ChangeType = [],
       rrset_Records = [\<lparr>rec_Content = ''1.2.3.4'', rec_Disabled = False, rec_SetPr = False\<rparr>],
       rrset_Comments = []\<rparr>]
     \<lparr>dc_Name = ''example.com'', dc_Records = []\<rparr> =
     Ok [\<lparr>rc_Type = ''A'', rc_Name = ''www'', rc_NameFQDN = ''www.example.com'',
          rc_Target = ''1.2.3.4'', rc_TTL = 0\<rparr>] \<and>
   sint (4294967296 :: 64 word) = 4294967296 \<and> uint (0 :: 32 word) = 0"
  by (simp add: nativeToDomainConfig_def SetLabelFromFQDN_def relativize_def trimTrailingDot_def
        relativeLabel_def)

section \<open>Names: from the wire and back\<close>

lemma trimTrailingDot_absolute: "trimTrailingDot (s @ ''.'') = s"
  by (simp add: trimTrailingDot_def)

lemma relativize_apex: "relativize (z @ ''.'') z = Some []"
  by (simp add: relativize_def trimTrailingDot_absolute relativeLabel_def)

lemma relativize_subdomain:
  assumes "l \<noteq> []"
  shows "relativize (l @ ''.'' @ z @ ''.'') z = Some l"
proof -
  have t: "trimTrailingDot (l @ ''.'' @ z @ ''.'') = l @ ''.'' @ z"
    using trimTrailingDot_absolute [of "l @ ''.'' @ z"] by simp
  have "l @ ''.'' @ z \<noteq> z"
  proof
    assume "l @ ''.'' @ z = z"
    then have "length (l @ ''.'' @ z) = length z" by simp
    then show False by simp
  qed
  moreover have "length z + 1 < length (l @ ''.'' @ z)"
    using assms by (cases l) simp_all
  moreover have "length (l @ ''.'' @ z) - (length z + 1) = length l" by simp
  ultimately have "relativeLabel (l @ ''.'' @ z) z = Some l"
    by (simp add: relativeLabel_def)
  with t show ?thesis by (simp only: relativize_def)
qed

lemma absolutize_apex: "absolutize [] z = z @ ''.''"
  by (simp add: absolutize_def)

lemma absolutize_subdomain: "l \<noteq> [] \<Longrightarrow> absolutize l z = l @ ''.'' @ z @ ''.''"
  by (simp add: absolutize_def)

text \<open>
  C8. For a wire name \<open>n\<close> that is the zone \<open>z\<close> followed by a dot, or a
  non-empty prefix, a dot, the zone and a dot, the name has a label relative
  to \<open>z\<close>, and making that label absolute again against \<open>z\<close> gives exactly
  \<open>n\<close>. \<open>SetLabelFromFQDN\<close> succeeds and stores that label, and appending
  the dot to what \<open>GetLabelFQDN\<close> then returns, as \<open>buildCorrection\<close> does,
  gives \<open>n\<close> as well.
\<close>

theorem name_round_trip:
  assumes "n = z @ ''.'' \<or> (\<exists>l. l \<noteq> [] \<and> n = l @ ''.'' @ z @ ''.'')"
  shows "\<exists>label.
           relativize n z = Some label \<and>
           absolutize label z = n \<and>
           SetLabelFromFQDN rc n z = Ok (rc\<lparr>rc_Name := label, rc_NameFQDN := butlast n\<rparr>) \<and>
           GetLabelFQDN (rc\<lparr>rc_Name := label, rc_NameFQDN := butlast n\<rparr>) @ ''.'' = n"
  using assms
proof
  assume n: "n = z @ ''.''"
  then have t: "trimTrailingDot n = butlast n" by (simp add: trimTrailingDot_def)
  from n have b: "butlast n @ ''.'' = n" by simp
  have r: "relativize n z = Some []" unfolding n by (rule relativize_apex)
  have a: "absolutize [] z = n" unfolding n by (rule absolutize_apex)
  show ?thesis
    by (intro exI [of _ "[]"]) (simp add: r a b t SetLabelFromFQDN_def GetLabelFQDN_def)
next
  assume "\<exists>l. l \<noteq> [] \<and> n = l @ ''.'' @ z @ ''.''"
  then obtain l where l: "l \<noteq> []" and n: "n = l @ ''.'' @ z @ ''.''" by auto
  from n have t: "trimTrailingDot n = butlast n" by (simp add: trimTrailingDot_def)
  from n have b: "butlast n @ ''.'' = n" by (simp add: butlast_append)
  have r: "relativize n z = Some l" unfolding n using l by (rule relativize_subdomain)
  have a: "absolutize l z = n" unfolding n using l by (rule absolutize_subdomain)
  show ?thesis
    by (intro exI [of _ l]) (simp add: r a b t SetLabelFromFQDN_def GetLabelFQDN_def)
qed

theorem name_round_trip_witness:
  "relativize ''www.example.com.'' ''example.com'' = Some ''www'' \<and>
   absolutize ''www'' ''example.com'' = ''www.example.com.'' \<and>
   SetLabelFromFQDN (wwwRecord ''1.2.3.4'') ''www.example.com.'' ''example.com'' =
     Ok ((wwwRecord ''1.2.3.4'')\<lparr>rc_Name := ''www'', rc_NameFQDN := ''www.example.com''\<rparr>) \<and>
   relativize ''example.com.'' ''example.com'' = Some [] \<and>
   absolutize [] ''example.com'' = ''example.com.''"
proof -
  have h: "''www.example.com.'' = ''example.com'' @ ''.'' \<or>
           (\<exists>l. l \<noteq> [] \<and> ''www.example.com.'' = l @ ''.'' @ ''example.com'' @ ''.'')"
    by (intro disjI2 exI [of _ "''www''"]) simp
  from name_round_trip [OF h, of "wwwRecord ''1.2.3.4''"]
  obtain label where
    r: "relativize ''www.example.com.'' ''example.com'' = Some label" and
    a: "absolutize label ''example.com'' = ''www.example.com.''" and
    s: "SetLabelFromFQDN (wwwRecord ''1.2.3.4'') ''www.example.com.'' ''example.com'' =
          Ok ((wwwRecord ''1.2.3.4'')\<lparr>rc_Name := label,
                rc_NameFQDN := butlast ''www.example.com.''\<rparr>)"
    by blast
  have "relativize ''www.example.com.'' ''example.com'' = Some ''www''"
    by (simp add: relativize_def trimTrailingDot_def relativeLabel_def)
  with r have label: "label = ''www''" by simp
  have h0: "''example.com.'' = ''example.com'' @ ''.'' \<or>
           (\<exists>l. l \<noteq> [] \<and> ''example.com.'' = l @ ''.'' @ ''example.com'' @ ''.'')"
    by simp
  from name_round_trip [OF h0, of "wwwRecord ''1.2.3.4''"]
  obtain label0 where
    r0: "relativize ''example.com.'' ''example.com'' = Some label0" and
    a0: "absolutize label0 ''example.com'' = ''example.com.''"
    by blast
  have "relativize ''example.com.'' ''example.com'' = Some []"
    by (simp add: relativize_def trimTrailingDot_def relativeLabel_def)
  with r0 have label0: "label0 = []" by simp
  from r a s r0 a0 show ?thesis unfolding label label0 by simp
qed

end
